theory Spec2Isabelle
  imports Main "HOL-Library.Sublist"
begin

section \<open>Data model (app/models.py)\<close>

text \<open>
  The tables of \<^verbatim>\<open>app/models.py\<close>. Integer primary keys and foreign keys are natural
  numbers, \<^verbatim>\<open>String\<close> columns are strings of Latin-1 characters, \<^verbatim>\<open>DateTime\<close> columns are
  seconds since the epoch. \<^verbatim>\<open>is_admin\<close> is a nullable Boolean column, so it holds \<open>None\<close>,
  \<open>Some False\<close> or \<open>Some True\<close>. No handler reads or writes the rows of the \<^verbatim>\<open>reviews\<close>
  table, so the table is left out; the relationships of \<^verbatim>\<open>Review\<close> are kept, see below.
\<close>

record user =
  u_id :: nat
  u_username :: string
  u_email :: string
  u_password_hash :: string
  u_is_admin :: "bool option"
  u_created_at :: nat

text \<open>
  The four subclasses of \<^verbatim>\<open>Post\<close> share the \<^verbatim>\<open>posts\<close> table and its primary key; the
  polymorphic identity is the discriminator \<^verbatim>\<open>post_type\<close>. \<^verbatim>\<open>vehicle_details\<close> is the extra
  nullable column of \<^verbatim>\<open>StolenPost\<close>.
\<close>

datatype post_type = Found | Lost | Looking | Stolen

record post =
  p_id :: nat
  p_description :: string
  p_location :: string
  p_contact_info :: string
  p_date_posted :: nat
  p_post_type :: post_type
  p_user_id :: nat
  p_image :: "string option"
  p_vehicle_details :: "string option"

record comment =
  c_id :: nat
  c_content :: string
  c_date_posted :: nat
  c_user_id :: nat
  c_post_id :: nat

subsection \<open>Relationships and mapper configuration\<close>

text \<open>
  Every \<^verbatim>\<open>db.relationship\<close> of \<^verbatim>\<open>models.py\<close>, in the order of the file: the class that
  declares it, its attribute name, the class it points to, and the \<^verbatim>\<open>backref\<close> it asks
  for on that class. \<^verbatim>\<open>User\<close> declares \<^verbatim>\<open>written_reviews\<close> and \<^verbatim>\<open>received_reviews\<close> (lines
  25 and 26) with the backrefs \<^verbatim>\<open>reviewer\<close> and \<^verbatim>\<open>reviewed_user\<close>, and \<^verbatim>\<open>Review\<close> declares
  \<^verbatim>\<open>reviewer\<close> and \<^verbatim>\<open>reviewed_user\<close> itself (lines 134 and 135), with the backrefs
  \<^verbatim>\<open>written_reviews\<close> and \<^verbatim>\<open>received_reviews\<close>.
\<close>

record relationship =
  rel_class :: string
  rel_name :: string
  rel_target :: string
  rel_backref :: string

definition models_relationships :: "relationship list" where
  "models_relationships =
     [\<lparr> rel_class = ''User'', rel_name = ''posts'',
         rel_target = ''Post'', rel_backref = ''user'' \<rparr>,
      \<lparr> rel_class = ''User'', rel_name = ''comments'',
         rel_target = ''Comment'', rel_backref = ''user'' \<rparr>,
      \<lparr> rel_class = ''User'', rel_name = ''written_reviews'',
         rel_target = ''Review'', rel_backref = ''reviewer'' \<rparr>,
      \<lparr> rel_class = ''User'', rel_name = ''received_reviews'',
         rel_target = ''Review'', rel_backref = ''reviewed_user'' \<rparr>,
      \<lparr> rel_class = ''Post'', rel_name = ''comments'',
         rel_target = ''Comment'', rel_backref = ''post'' \<rparr>,
      \<lparr> rel_class = ''Review'', rel_name = ''reviewer'',
         rel_target = ''User'', rel_backref = ''written_reviews'' \<rparr>,
      \<lparr> rel_class = ''Review'', rel_name = ''reviewed_user'',
         rel_target = ''User'', rel_backref = ''received_reviews'' \<rparr>]"

section \<open>Exceptions\<close>

text \<open>
  The exceptions the handlers can meet, each with the names it is about, and Python's
  \<^verbatim>\<open>str(e)\<close> of each. \<open>ArgumentError b r\<close> is SQLAlchemy's refusal to create the backref
  \<open>b\<close> of the relationship \<open>r\<close>.
\<close>

datatype exn =
    ArgumentError string string
  | InvalidRequestError
  | IntegrityError string
  | AttributeError string
  | NameError string
  | KeyError string
  | TypeError string
  | IsADirectoryError string
  | SMTPException

definition quoted :: "string \<Rightarrow> string" where
  "quoted n = [CHR 0x27] @ n @ [CHR 0x27]"

fun str_exn :: "exn \<Rightarrow> string" where
  "str_exn (ArgumentError b r) =
     ''Error creating backref '' @ quoted b @ '' on relationship '' @ quoted r
     @ '': property of that name exists on mapper''"
| "str_exn InvalidRequestError = ''Object is already attached to session''"
| "str_exn (IntegrityError c) = ''NOT NULL constraint failed: '' @ c"
| "str_exn (AttributeError a) =
     quoted ''NoneType'' @ '' object has no attribute '' @ quoted a"
| "str_exn (NameError n) = ''name '' @ quoted n @ '' is not defined''"
| "str_exn (KeyError k) = quoted k"
| "str_exn (TypeError m) = quoted ''NoneType'' @ '' object is not '' @ m"
| "str_exn (IsADirectoryError p) = ''Is a directory: '' @ quoted p"
| "str_exn SMTPException = ''mail server unavailable''"

text \<open>
  SQLAlchemy configures all mappers before the first query. A backref creates an
  attribute on the target class; when the target class already declares a relationship
  of that name the configuration raises \<^verbatim>\<open>ArgumentError\<close>, at the first relationship of
  the file for which this happens.
\<close>

definition declared :: "relationship list \<Rightarrow> (string \<times> string) list" where
  "declared rels = map (\<lambda>r. (rel_class r, rel_name r)) rels"

definition backref_clash :: "relationship list \<Rightarrow> relationship option" where
  "backref_clash rels =
     find (\<lambda>r. (rel_target r, rel_backref r) \<in> set (declared rels)) rels"

definition configure_mappers :: "exn + unit" where
  "configure_mappers =
     (case backref_clash models_relationships of
        Some r \<Rightarrow> Inl (ArgumentError (rel_backref r) (rel_class r @ ''.'' @ rel_name r))
      | None \<Rightarrow> Inr ())"

text \<open>
  An ORM query: \<^verbatim>\<open>Model.query\<close> first has the mappers configured, then yields what the
  database holds.
\<close>

definition query :: "'a \<Rightarrow> exn + 'a" where
  "query rows = (case configure_mappers of Inl e \<Rightarrow> Inl e | Inr _ \<Rightarrow> Inr rows)"

section \<open>Tokens and mail (external services)\<close>

text \<open>
  A token is either a string that is no JWT at all, or a set of claims signed with a key.
  \<open>jwt_decode\<close> is the contract of \<^verbatim>\<open>jwt.decode(token, key, algorithms=['HS256'])\<close>: it
  raises on a malformed token, on a signature made with another key, and on an \<^verbatim>\<open>exp\<close>
  claim that is not in the future; otherwise it returns the claims.
\<close>

datatype token = Malformed string | Signed string "(string \<times> nat) list"

datatype jwt_error = DecodeError | InvalidSignatureError | ExpiredSignatureError

definition jwt_decode :: "token \<Rightarrow> string \<Rightarrow> nat \<Rightarrow> jwt_error + (string \<rightharpoonup> nat)" where
  "jwt_decode tok key now =
     (case tok of
        Malformed _ \<Rightarrow> Inl DecodeError
      | Signed k claims \<Rightarrow>
          if k \<noteq> key then Inl InvalidSignatureError
          else (case map_of claims ''exp'' of
                  Some e \<Rightarrow> if e \<le> now then Inl ExpiredSignatureError else Inr (map_of claims)
                | None \<Rightarrow> Inr (map_of claims)))"

definition jwt_encode :: "(string \<times> nat) list \<Rightarrow> string \<Rightarrow> token" where
  "jwt_encode claims key = Signed key claims"

record mail =
  m_subject :: string
  m_recipients :: "string list"
  m_token :: token

section \<open>Persistent state and the request environment\<close>

text \<open>
  The state a request can read and change: the three tables, the files written to
  \<^verbatim>\<open>UPLOAD_FOLDER\<close>, and the mails the mail server has taken. Rows are kept in insertion
  order.
\<close>

record db =
  users :: "user list"
  posts :: "post list"
  comments :: "comment list"
  uploads :: "string list"
  outbox :: "mail list"

text \<open>
  What a handler reads from its surroundings: the clock, \<^verbatim>\<open>SECRET_KEY\<close>, werkzeug's
  \<^verbatim>\<open>secure_filename\<close> and \<^verbatim>\<open>generate_password_hash\<close>, and whether the mail server takes
  a message. These are outside the repository and taken as parameters.
\<close>

record env =
  e_now :: nat
  e_secret_key :: string
  e_secure_filename :: "string \<Rightarrow> string"
  e_generate_password_hash :: "string \<Rightarrow> string"
  e_mail_send :: "mail \<Rightarrow> bool"

subsection \<open>The two database objects\<close>

text \<open>
  \<^verbatim>\<open>app/__init__.py\<close> (line 14) and \<^verbatim>\<open>app/models.py\<close> (line 9) each create a
  \<^verbatim>\<open>SQLAlchemy()\<close> object. The model classes belong to the one of \<^verbatim>\<open>models.py\<close>, so every
  row a query loads lives in its session. The post modules and \<^verbatim>\<open>users.py\<close> import
  \<^verbatim>\<open>db\<close> from \<^verbatim>\<open>app\<close>; \<^verbatim>\<open>admins.py\<close> imports it from \<^verbatim>\<open>app.models\<close>.
\<close>

datatype database = AppDb | ModelsDb

definition posts_module_db :: database where
  "posts_module_db = AppDb"

definition users_module_db :: database where
  "users_module_db = AppDb"

definition admins_module_db :: database where
  "admins_module_db = ModelsDb"

text \<open>
  \<^verbatim>\<open>db.session.commit()\<close> after loaded rows were changed: the changes are pending in the
  session of \<^verbatim>\<open>models.py\<close>, and a commit of the other session stores nothing.
  \<open>commit_loaded d before after\<close> is the state after the commit.
\<close>

definition commit_loaded :: "database \<Rightarrow> db \<Rightarrow> db \<Rightarrow> db" where
  "commit_loaded d before after = (if d = ModelsDb then after else before)"

text \<open>
  \<^verbatim>\<open>db.session.delete(row)\<close> of a loaded row: a session refuses a row that is attached to
  another session.
\<close>

definition session_delete :: "database \<Rightarrow> exn + unit" where
  "session_delete d = (if d = ModelsDb then Inr () else Inl InvalidRequestError)"

section \<open>Responses\<close>

record post_view =
  pv_id :: nat
  pv_description :: string
  pv_location :: string
  pv_contact_info :: string
  pv_image :: "string option"
  pv_vehicle_details :: "string option option"
  pv_date_posted :: nat
  pv_username :: string

record comment_view =
  cv_id :: nat
  cv_content :: string
  cv_date_posted :: nat
  cv_username :: string

record user_view =
  uv_id :: nat
  uv_username :: string
  uv_email :: string
  uv_is_admin :: "bool option"
  uv_created_at :: nat

record activity_row =
  ar_username :: string
  ar_post_date :: "nat option"
  ar_comment_date :: "nat option"
  ar_total_posts :: nat
  ar_total_comments :: nat

text \<open>
  The rows of a \<^verbatim>\<open>GROUP BY\<close> query come in an order SQL leaves open, so each series of
  the analytics is kept as the set of its rows.
\<close>

record analytics =
  an_total_users :: nat
  an_total_posts :: nat
  an_total_comments :: nat
  an_users_per_day :: "(nat \<times> nat) set"
  an_posts_per_day :: "(nat \<times> nat) set"
  an_comments_per_day :: "(nat \<times> nat) set"
  an_user_activity :: "activity_row set"

text \<open>
  The JSON bodies the handlers build. \<open>Created m i\<close> is \<^verbatim>\<open>{'message': m, 'image': i}\<close>,
  \<open>Activity ps cs\<close> is the body of the user-activity endpoint: \<^verbatim>\<open>(id, description,
  date_posted)\<close> of each post and \<^verbatim>\<open>(id, content, date_posted)\<close> of each comment.
\<close>

datatype body =
    Message string
  | Errors "string list"
  | Created string "string option"
  | PostJson post_view
  | PostsJson "post_view list"
  | CommentsJson "comment_view list"
  | UserJson user_view
  | UsersJson "user_view list"
  | Activity "(nat \<times> string \<times> nat) list" "(nat \<times> string \<times> nat) list"
  | AnalyticsJson analytics

type_synonym response = "body \<times> nat"

text \<open>
  What a handler function does: it returns a response or lets an exception out, and
  leaves a state behind. An exception that leaves the handler makes the framework
  answer 500.
\<close>

type_synonym outcome = "(exn + response) \<times> db"

text \<open>A step that may raise, followed by the rest of the handler.\<close>

definition on_query :: "exn + 'a \<Rightarrow> db \<Rightarrow> ('a \<Rightarrow> outcome) \<Rightarrow> outcome" where
  "on_query q s rest = (case q of Inl e \<Rightarrow> (Inl e, s) | Inr v \<Rightarrow> rest v)"

text \<open>
  \<^verbatim>\<open>try: ... except Exception as e: return jsonify({'message': f'An error occurred:
  {str(e)}'}), 500\<close>. The state that comes back is the one the body left behind: nothing
  is committed after the raise.
\<close>

definition catch_all :: "outcome \<Rightarrow> response \<times> db" where
  "catch_all r =
     (case fst r of
        Inl e \<Rightarrow> ((Message (''An error occurred: '' @ str_exn e), 500), snd r)
      | Inr resp \<Rightarrow> (resp, snd r))"

text \<open>A \<^verbatim>\<open>try\<close> block inside a handler that can raise before it.\<close>

definition handled :: "response \<times> db \<Rightarrow> outcome" where
  "handled r = (Inr (fst r), snd r)"

section \<open>Queries\<close>

text \<open>The row \<^verbatim>\<open>User.query.get(user_id)\<close> selects, and the query.\<close>

definition user_row :: "db \<Rightarrow> nat \<Rightarrow> user option" where
  "user_row s uid = find (\<lambda>u. u_id u = uid) (users s)"

definition user_get :: "db \<Rightarrow> nat \<Rightarrow> exn + user option" where
  "user_get s uid = query (user_row s uid)"

text \<open>
  \<^verbatim>\<open>FoundPost.query.get(post_id)\<close> and its three siblings: the row with that primary key,
  when its polymorphic identity is the one of the class queried.
\<close>

definition post_row :: "post_type \<Rightarrow> db \<Rightarrow> nat \<Rightarrow> post option" where
  "post_row pt s pid = find (\<lambda>p. p_id p = pid \<and> p_post_type p = pt) (posts s)"

definition post_get :: "post_type \<Rightarrow> db \<Rightarrow> nat \<Rightarrow> exn + post option" where
  "post_get pt s pid = query (post_row pt s pid)"

text \<open>\<^verbatim>\<open>FoundPost.query.all()\<close>\<close>

definition post_rows :: "post_type \<Rightarrow> db \<Rightarrow> post list" where
  "post_rows pt s = filter (\<lambda>p. p_post_type p = pt) (posts s)"

definition post_all :: "post_type \<Rightarrow> db \<Rightarrow> exn + post list" where
  "post_all pt s = query (post_rows pt s)"

text \<open>\<^verbatim>\<open>User.query.filter_by(email=e).first()\<close>\<close>

definition user_by_email_row :: "db \<Rightarrow> string \<Rightarrow> user option" where
  "user_by_email_row s e = find (\<lambda>u. u_email u = e) (users s)"

definition user_by_email :: "db \<Rightarrow> string \<Rightarrow> exn + user option" where
  "user_by_email s e = query (user_by_email_row s e)"

text \<open>The next value of an autoincrement primary key: one more than the largest in use.\<close>

definition fresh_id :: "nat list \<Rightarrow> nat" where
  "fresh_id ids = Suc (fold max ids 0)"

section \<open>Post handlers (app/Posts_Respo_Alert)\<close>

text \<open>
  \<^verbatim>\<open>found.py\<close>, \<^verbatim>\<open>lost.py\<close>, \<^verbatim>\<open>looking.py\<close> and \<^verbatim>\<open>stolen.py\<close> are the same handlers
  up to the model class they query, the word in their messages, and the
  \<^verbatim>\<open>vehicle_details\<close> column of the stolen variant. Each handler is written once, with
  the post type as its first argument. The whole body of each is inside a \<^verbatim>\<open>try\<close>.
\<close>

fun type_name :: "post_type \<Rightarrow> string" where
  "type_name Found = ''Found''"
| "type_name Lost = ''Lost''"
| "type_name Looking = ''Looking''"
| "type_name Stolen = ''Stolen''"

text \<open>Python's \<^verbatim>\<open>not data.get(k)\<close> on form data: the key is absent or its value is empty.\<close>

definition missing :: "string option \<Rightarrow> bool" where
  "missing v = (case v of None \<Rightarrow> True | Some x \<Rightarrow> x = [])"

definition validate_post_data :: "(string \<rightharpoonup> string) \<Rightarrow> string list" where
  "validate_post_data data =
     (if missing (data ''description'') then [''Description is required.''] else []) @
     (if missing (data ''location'') then [''Location is required.''] else []) @
     (if missing (data ''contact_info'') then [''Contact information is required.''] else [])"

text \<open>
  \<^verbatim>\<open>save_image\<close>: the file is written under the sanitised name, which is returned. When
  sanitising leaves nothing of the name, the path is the upload folder itself and
  writing to it raises. An uploaded file is truthy when it has a file name.
\<close>

definition save_image :: "env \<Rightarrow> string \<Rightarrow> db \<Rightarrow> exn + (string \<times> db)" where
  "save_image ev name s =
     (let filename = e_secure_filename ev name
      in if filename = [] then Inl (IsADirectoryError ''uploads/'')
         else Inr (filename, s\<lparr>uploads := uploads s @ [filename]\<rparr>))"

definition has_file :: "string option \<Rightarrow> bool" where
  "has_file img = (\<not> missing img)"

definition create_post ::
  "post_type \<Rightarrow> env \<Rightarrow> nat \<Rightarrow> (string \<rightharpoonup> string) \<Rightarrow> string option \<Rightarrow> db \<Rightarrow> response \<times> db" where
  "create_post pt ev ident data img s =
     catch_all
       (let errors = validate_post_data data in
        if errors \<noteq> [] then (Inr (Errors errors, 400), s)
        else
          (case (if has_file img
                 then (case save_image ev (the img) s of
                         Inl e \<Rightarrow> Inl e
                       | Inr (f, s') \<Rightarrow> Inr (Some f, s'))
                 else Inr (None, s)) of
             Inl e \<Rightarrow> (Inl e, s)
           | Inr (image_filename, s1) \<Rightarrow>
               on_query (user_get s1 ident) s1 (\<lambda>found.
                 case found of
                   None \<Rightarrow> (Inr (Message ''User not found'', 404), s1)
                 | Some usr \<Rightarrow>
                     let new_post = \<lparr>
                           p_id = fresh_id (map p_id (posts s1)),
                           p_description = the (data ''description''),
                           p_location = the (data ''location''),
                           p_contact_info = the (data ''contact_info''),
                           p_date_posted = e_now ev,
                           p_post_type = pt,
                           p_user_id = u_id usr,
                           p_image = image_filename,
                           p_vehicle_details =
                             (if pt = Stolen then data ''vehicle_details'' else None) \<rparr>
                     in (Inr (Created (type_name pt @ '' post created successfully'')
                                image_filename, 201),
                         s1\<lparr>posts := posts s1 @ [new_post]\<rparr>))))"

text \<open>
  The dictionary each read endpoint builds for a post. \<^verbatim>\<open>post.user\<close> is the owner's row
  or \<^verbatim>\<open>None\<close>, and \<^verbatim>\<open>None.username\<close> raises. Only the stolen variant has the key
  \<^verbatim>\<open>vehicle_details\<close>.
\<close>

definition post_json :: "post_type \<Rightarrow> db \<Rightarrow> post \<Rightarrow> exn + post_view" where
  "post_json pt s p =
     (case user_row s (p_user_id p) of
        None \<Rightarrow> Inl (AttributeError ''username'')
      | Some usr \<Rightarrow> Inr \<lparr>
          pv_id = p_id p,
          pv_description = p_description p,
          pv_location = p_location p,
          pv_contact_info = p_contact_info p,
          pv_image = p_image p,
          pv_vehicle_details = (if pt = Stolen then Some (p_vehicle_details p) else None),
          pv_date_posted = p_date_posted p,
          pv_username = u_username usr \<rparr>)"

text \<open>A list comprehension whose element expression may raise: the first raise ends it.\<close>

fun map_exn :: "('a \<Rightarrow> exn + 'b) \<Rightarrow> 'a list \<Rightarrow> exn + 'b list" where
  "map_exn f [] = Inr []"
| "map_exn f (x # xs) =
     (case f x of
        Inl e \<Rightarrow> Inl e
      | Inr y \<Rightarrow> (case map_exn f xs of Inl e \<Rightarrow> Inl e | Inr ys \<Rightarrow> Inr (y # ys)))"

definition posts_response :: "post_type \<Rightarrow> db \<Rightarrow> post list \<Rightarrow> exn + response" where
  "posts_response pt s ps =
     (case map_exn (post_json pt s) ps of
        Inl e \<Rightarrow> Inl e
      | Inr posts_data \<Rightarrow> Inr (PostsJson posts_data, 200))"

definition get_all_posts :: "post_type \<Rightarrow> db \<Rightarrow> response \<times> db" where
  "get_all_posts pt s =
     catch_all (on_query (post_all pt s) s (\<lambda>ps. (posts_response pt s ps, s)))"

definition get_post :: "post_type \<Rightarrow> nat \<Rightarrow> db \<Rightarrow> response \<times> db" where
  "get_post pt pid s =
     catch_all
       (on_query (post_get pt s pid) s (\<lambda>found.
          case found of
            None \<Rightarrow> (Inr (Message ''Post not found'', 404), s)
          | Some p \<Rightarrow>
              (case post_json pt s p of
                 Inl e \<Rightarrow> (Inl e, s)
               | Inr post_data \<Rightarrow> (Inr (PostJson post_data, 200), s))))"

subsection \<open>Search\<close>

text \<open>
  Two ways of lower-casing meet in a search. Python's \<^verbatim>\<open>str.lower()\<close>, applied to the two
  request arguments, follows Unicode: among the Latin-1 characters it lowers the
  letters A to Z and the accented capitals. SQLite's \<^verbatim>\<open>lower\<close> and \<^verbatim>\<open>LIKE\<close> know the letters
  A to Z only.
\<close>

definition ascii_upper :: string where
  "ascii_upper = ''ABCDEFGHIJKLMNOPQRSTUVWXYZ''"

definition ascii_lower :: string where
  "ascii_lower = ''abcdefghijklmnopqrstuvwxyz''"

definition latin1_upper :: string where
  "latin1_upper =
     [CHR 0xC0, CHR 0xC1, CHR 0xC2, CHR 0xC3, CHR 0xC4, CHR 0xC5, CHR 0xC6, CHR 0xC7,
      CHR 0xC8, CHR 0xC9, CHR 0xCA, CHR 0xCB, CHR 0xCC, CHR 0xCD, CHR 0xCE, CHR 0xCF,
      CHR 0xD0, CHR 0xD1, CHR 0xD2, CHR 0xD3, CHR 0xD4, CHR 0xD5, CHR 0xD6, CHR 0xD8,
      CHR 0xD9, CHR 0xDA, CHR 0xDB, CHR 0xDC, CHR 0xDD, CHR 0xDE]"

definition latin1_lower :: string where
  "latin1_lower =
     [CHR 0xE0, CHR 0xE1, CHR 0xE2, CHR 0xE3, CHR 0xE4, CHR 0xE5, CHR 0xE6, CHR 0xE7,
      CHR 0xE8, CHR 0xE9, CHR 0xEA, CHR 0xEB, CHR 0xEC, CHR 0xED, CHR 0xEE, CHR 0xEF,
      CHR 0xF0, CHR 0xF1, CHR 0xF2, CHR 0xF3, CHR 0xF4, CHR 0xF5, CHR 0xF6, CHR 0xF8,
      CHR 0xF9, CHR 0xFA, CHR 0xFB, CHR 0xFC, CHR 0xFD, CHR 0xFE]"

definition sql_lower_char :: "char \<Rightarrow> char" where
  "sql_lower_char c =
     (case map_of (zip ascii_upper ascii_lower) c of None \<Rightarrow> c | Some d \<Rightarrow> d)"

definition py_lower_char :: "char \<Rightarrow> char" where
  "py_lower_char c =
     (case map_of (zip (ascii_upper @ latin1_upper) (ascii_lower @ latin1_lower)) c of
        None \<Rightarrow> c
      | Some d \<Rightarrow> d)"

definition sql_lower :: "string \<Rightarrow> string" where
  "sql_lower s = map sql_lower_char s"

definition py_lower :: "string \<Rightarrow> string" where
  "py_lower s = map py_lower_char s"

text \<open>
  SQL's \<^verbatim>\<open>LIKE\<close>, pattern first: \<^verbatim>\<open>%\<close> matches any run of characters, \<^verbatim>\<open>_\<close> matches any
  one character, every other character matches itself. No escape character is set, as
  in the query the source builds. \<^verbatim>\<open>column.ilike(pattern)\<close> is \<^verbatim>\<open>lower(column) LIKE
  lower(pattern)\<close>.
\<close>

fun like :: "string \<Rightarrow> string \<Rightarrow> bool" where
  "like [] s = (s = [])"
| "like (p # ps) [] = (p = CHR ''%'' \<and> like ps [])"
| "like (p # ps) (c # cs) =
     (if p = CHR ''%'' then like ps (c # cs) \<or> like (p # ps) cs
      else (p = CHR ''_'' \<or> p = c) \<and> like ps cs)"

definition ilike :: "string \<Rightarrow> string \<Rightarrow> bool" where
  "ilike column pattern = like (sql_lower pattern) (sql_lower column)"

text \<open>\<^verbatim>\<open>request.args.get(k, '')\<close>\<close>

definition arg :: "(string \<rightharpoonup> string) \<Rightarrow> string \<Rightarrow> string" where
  "arg args k = (case args k of None \<Rightarrow> [] | Some v \<Rightarrow> v)"

text \<open>
  The two conditional \<^verbatim>\<open>filter\<close> calls of the search handler, on the rows of the
  variant: \<open>keyword\<close> and \<open>location\<close> are the lower-cased arguments.
\<close>

definition search_rows :: "string \<Rightarrow> string \<Rightarrow> post list \<Rightarrow> post list" where
  "search_rows keyword location rows =
     (let selected = rows;
          selected = (if keyword \<noteq> []
                      then filter (\<lambda>p. ilike (p_description p) (''%'' @ keyword @ ''%'')) selected
                      else selected);
          selected = (if location \<noteq> []
                      then filter (\<lambda>p. ilike (p_location p) (''%'' @ location @ ''%'')) selected
                      else selected)
      in selected)"

definition search_posts :: "post_type \<Rightarrow> (string \<rightharpoonup> string) \<Rightarrow> db \<Rightarrow> response \<times> db" where
  "search_posts pt args s =
     catch_all
       (let keyword = py_lower (arg args ''keyword'');
            location = py_lower (arg args ''location'')
        in on_query (post_all pt s) s (\<lambda>rows.
             (posts_response pt s (search_rows keyword location rows), s)))"

subsection \<open>Update and delete\<close>

text \<open>\<^verbatim>\<open>data.get(k, default)\<close>\<close>

definition get_or :: "(string \<rightharpoonup> 'a) \<Rightarrow> string \<Rightarrow> 'a \<Rightarrow> 'a" where
  "get_or data k d = (case data k of None \<Rightarrow> d | Some v \<Rightarrow> v)"

text \<open>The table after the row with the primary key of \<open>p'\<close> is rewritten.\<close>

definition store_post :: "post \<Rightarrow> db \<Rightarrow> db" where
  "store_post p' s = s\<lparr>posts := map (\<lambda>q. if p_id q = p_id p' then p' else q) (posts s)\<rparr>"

text \<open>
  The update handler assigns to the post it loaded, saves the image, and commits the
  session of the module's own \<^verbatim>\<open>db\<close>.
\<close>

definition update_post ::
  "post_type \<Rightarrow> env \<Rightarrow> nat \<Rightarrow> nat \<Rightarrow> (string \<rightharpoonup> string) \<Rightarrow> string option \<Rightarrow> db \<Rightarrow> response \<times> db" where
  "update_post pt ev ident pid data img s =
     catch_all
       (on_query (post_get pt s pid) s (\<lambda>found.
          case found of
            None \<Rightarrow> (Inr (Message ''Post not found'', 404), s)
          | Some p \<Rightarrow>
              if p_user_id p \<noteq> ident
              then (Inr (Message ''Unauthorized to update this post'', 403), s)
              else
                let errors = validate_post_data data in
                if errors \<noteq> [] then (Inr (Errors errors, 400), s)
                else
                  let p1 = p\<lparr>
                        p_description := get_or data ''description'' (p_description p),
                        p_location := get_or data ''location'' (p_location p),
                        p_contact_info := get_or data ''contact_info'' (p_contact_info p) \<rparr>;
                      p2 = (if pt = Stolen
                            then p1\<lparr>p_vehicle_details :=
                                      get_or (map_option Some \<circ> data) ''vehicle_details''
                                        (p_vehicle_details p)\<rparr>
                            else p1)
                  in (case (if has_file img
                            then (case save_image ev (the img) s of
                                    Inl e \<Rightarrow> Inl e
                                  | Inr (f, s') \<Rightarrow> Inr (p2\<lparr>p_image := Some f\<rparr>, s'))
                            else Inr (p2, s)) of
                        Inl e \<Rightarrow> (Inl e, s)
                      | Inr (p3, s1) \<Rightarrow>
                          (Inr (Message (type_name pt @ '' post updated successfully''), 200),
                           commit_loaded posts_module_db s1 (store_post p3 s1)))))"

definition delete_post :: "post_type \<Rightarrow> nat \<Rightarrow> nat \<Rightarrow> db \<Rightarrow> response \<times> db" where
  "delete_post pt ident pid s =
     catch_all
       (on_query (post_get pt s pid) s (\<lambda>found.
          case found of
            None \<Rightarrow> (Inr (Message ''Post not found'', 404), s)
          | Some p \<Rightarrow>
              if p_user_id p \<noteq> ident
              then (Inr (Message ''Unauthorized to delete this post'', 403), s)
              else
                (case session_delete posts_module_db of
                   Inl e \<Rightarrow> (Inl e, s)
                 | Inr _ \<Rightarrow>
                     (Inr (Message (type_name pt @ '' post deleted successfully''), 200),
                      s\<lparr>posts := filter (\<lambda>q. p_id q \<noteq> p_id p) (posts s)\<rparr>))))"

subsection \<open>Comments\<close>


definition comment_json :: "db \<Rightarrow> comment \<Rightarrow> exn + comment_view" where
  "comment_json s c =
     (case user_row s (c_user_id c) of
        None \<Rightarrow> Inl (AttributeError ''username'')
      | Some usr \<Rightarrow> Inr \<lparr>
          cv_id = c_id c,
          cv_content = c_content c,
          cv_date_posted = c_date_posted c,
          cv_username = u_username usr \<rparr>)"

definition get_comments :: "post_type \<Rightarrow> nat \<Rightarrow> db \<Rightarrow> response \<times> db" where
  "get_comments pt pid s =
     catch_all
       (on_query (post_get pt s pid) s (\<lambda>found.
          case found of
            None \<Rightarrow> (Inr (Message ''Post not found'', 404), s)
          | Some p \<Rightarrow>
              on_query (query (filter (\<lambda>c. c_post_id c = pid) (comments s))) s (\<lambda>cs.
                case map_exn (comment_json s) cs of
                  Inl e \<Rightarrow> (Inl e, s)
                | Inr comments_data \<Rightarrow> (Inr (CommentsJson comments_data, 200), s))))"

section \<open>Password reset (app/models.py, app/users/users.py)\<close>

text \<open>\<^verbatim>\<open>User.get_reset_token\<close>, with its default \<^verbatim>\<open>expires_in=600\<close>.\<close>

definition get_reset_token :: "env \<Rightarrow> user \<Rightarrow> token" where
  "get_reset_token ev usr =
     jwt_encode [(''reset_password'', u_id usr), (''exp'', e_now ev + 600)] (e_secret_key ev)"

text \<open>
  \<^verbatim>\<open>User.verify_reset_token\<close>: the bare \<^verbatim>\<open>except\<close> catches whatever the decoding raises
  and also the \<^verbatim>\<open>KeyError\<close> of a payload without \<^verbatim>\<open>reset_password\<close>. The query for the
  user comes after the \<^verbatim>\<open>try\<close>.
\<close>

definition verify_reset_token :: "env \<Rightarrow> db \<Rightarrow> token \<Rightarrow> exn + user option" where
  "verify_reset_token ev s tok =
     (case jwt_decode tok (e_secret_key ev) (e_now ev) of
        Inl _ \<Rightarrow> Inr None
      | Inr payload \<Rightarrow>
          (case payload ''reset_password'' of
             None \<Rightarrow> Inr None
           | Some user_id \<Rightarrow> user_get s user_id))"

text \<open>\<^verbatim>\<open>send_reset_email\<close>: \<^verbatim>\<open>mail.send\<close> raises when the server does not take the message.\<close>

definition send_reset_email :: "env \<Rightarrow> user \<Rightarrow> db \<Rightarrow> exn + db" where
  "send_reset_email ev usr s =
     (let tok = get_reset_token ev usr;
          msg = \<lparr> m_subject = ''Password Reset Request'',
                  m_recipients = [u_email usr],
                  m_token = tok \<rparr>
      in if e_mail_send ev msg then Inr (s\<lparr>outbox := outbox s @ [msg]\<rparr>)
         else Inl SMTPException)"

text \<open>
  \<^verbatim>\<open>users.py\<close> has no \<^verbatim>\<open>try\<close>: an exception leaves the handler. In
  \<^verbatim>\<open>User.query.filter_by(email=data['email'])\<close> the query object comes first, then the
  subscript of the body, which raises on an absent body and on an absent key.
\<close>

definition request_password_reset ::
  "env \<Rightarrow> (string \<rightharpoonup> string) option \<Rightarrow> db \<Rightarrow> outcome" where
  "request_password_reset ev body s =
     on_query (query ()) s (\<lambda>_.
       case body of
         None \<Rightarrow> (Inl (TypeError ''subscriptable''), s)
       | Some data \<Rightarrow>
           (case data ''email'' of
              None \<Rightarrow> (Inl (KeyError ''email''), s)
            | Some e \<Rightarrow>
                (case (case user_by_email_row s e of
                         Some usr \<Rightarrow> send_reset_email ev usr s
                       | None \<Rightarrow> Inr s) of
                   Inl err \<Rightarrow> (Inl err, s)
                 | Inr s1 \<Rightarrow>
                     (Inr (Message
                        ''If your email exists, you will receive a password reset email shortly.'',
                        200), s1))))"

definition store_user :: "user \<Rightarrow> db \<Rightarrow> db" where
  "store_user u' s = s\<lparr>users := map (\<lambda>q. if u_id q = u_id u' then u' else q) (users s)\<rparr>"

definition reset_password ::
  "env \<Rightarrow> token \<Rightarrow> (string \<rightharpoonup> string) option \<Rightarrow> db \<Rightarrow> outcome" where
  "reset_password ev tok body s =
     on_query (verify_reset_token ev s tok) s (\<lambda>found.
       case found of
         None \<Rightarrow> (Inr (Message ''Invalid or expired token'', 400), s)
       | Some usr \<Rightarrow>
           (case body of
              None \<Rightarrow> (Inr (Message ''Password is required'', 400), s)
            | Some data \<Rightarrow>
                if missing (data ''password'')
                then (Inr (Message ''Password is required'', 400), s)
                else (Inr (Message ''Password has been updated'', 200),
                      commit_loaded users_module_db s
                        (store_user
                           (usr\<lparr>u_password_hash :=
                                  e_generate_password_hash ev (the (data ''password''))\<rparr>) s))))"

section \<open>Administration (app/users/admins.py)\<close>

text \<open>
  \<^verbatim>\<open>is_admin(user_id)\<close> queries the caller's row and returns its flag, or \<^verbatim>\<open>False\<close> when
  there is no row. Every handler tests \<^verbatim>\<open>not is_admin(current_user_id)\<close>, which is true
  of \<^verbatim>\<open>None\<close> and of \<^verbatim>\<open>False\<close>, before any \<^verbatim>\<open>try\<close>.
\<close>

definition is_admin :: "db \<Rightarrow> nat \<Rightarrow> exn + bool option" where
  "is_admin s uid =
     (case user_get s uid of
        Inl e \<Rightarrow> Inl e
      | Inr found \<Rightarrow> Inr (case found of Some usr \<Rightarrow> u_is_admin usr | None \<Rightarrow> Some False))"

definition py_not :: "bool option \<Rightarrow> bool" where
  "py_not v = (v \<noteq> Some True)"

definition forbidden :: response where
  "forbidden = (Message ''Admin access required'', 403)"

definition user_json :: "user \<Rightarrow> user_view" where
  "user_json usr = \<lparr>
     uv_id = u_id usr,
     uv_username = u_username usr,
     uv_email = u_email usr,
     uv_is_admin = u_is_admin usr,
     uv_created_at = u_created_at usr \<rparr>"

subsection \<open>Analytics\<close>

text \<open>
  \<^verbatim>\<open>func.date\<close> of a timestamp is its day. \<open>group_count\<close> is \<^verbatim>\<open>GROUP BY\<close> with a count per
  group.
\<close>

definition date :: "nat \<Rightarrow> nat" where
  "date ts = ts div 86400"

definition group_count :: "'k list \<Rightarrow> ('k \<times> nat) set" where
  "group_count ks = (\<lambda>k. (k, count_list ks k)) ` set ks"

text \<open>
  The rows of \<^verbatim>\<open>users LEFT OUTER JOIN posts LEFT OUTER JOIN comments\<close>, both joined on
  the user's id: every pair of a post and a comment of the user, with \<open>None\<close> on a side
  that has no row. The rows are grouped by user name, post day and comment day;
  \<^verbatim>\<open>count(Post.id)\<close> and \<^verbatim>\<open>count(Comment.id)\<close> count the rows of the group whose side is
  not \<open>None\<close>.
\<close>

definition outer :: "'a list \<Rightarrow> 'a option list" where
  "outer xs = (if xs = [] then [None] else map Some xs)"

definition joined_rows :: "db \<Rightarrow> (string \<times> post option \<times> comment option) list" where
  "joined_rows s =
     concat (map (\<lambda>usr.
       concat (map (\<lambda>p. map (\<lambda>c. (u_username usr, p, c))
                            (outer (filter (\<lambda>c. c_user_id c = u_id usr) (comments s))))
                   (outer (filter (\<lambda>p. p_user_id p = u_id usr) (posts s)))))
       (users s))"

definition row_key ::
  "string \<times> post option \<times> comment option \<Rightarrow> string \<times> nat option \<times> nat option" where
  "row_key r =
     (fst r, map_option (date \<circ> p_date_posted) (fst (snd r)),
      map_option (date \<circ> c_date_posted) (snd (snd r)))"

definition user_activity :: "db \<Rightarrow> activity_row set" where
  "user_activity s =
     (let rows = joined_rows s in
      (\<lambda>k. \<lparr>
         ar_username = fst k,
         ar_post_date = fst (snd k),
         ar_comment_date = snd (snd k),
         ar_total_posts =
           length (filter (\<lambda>r. row_key r = k \<and> fst (snd r) \<noteq> None) rows),
         ar_total_comments =
           length (filter (\<lambda>r. row_key r = k \<and> snd (snd r) \<noteq> None) rows) \<rparr>)
        ` set (map row_key rows))"

definition admin_analytics :: "nat \<Rightarrow> db \<Rightarrow> outcome" where
  "admin_analytics ident s =
     on_query (is_admin s ident) s (\<lambda>flag.
       if py_not flag then (Inr forbidden, s)
       else
         handled (catch_all
           (on_query (query ()) s (\<lambda>_.
              (Inr (AnalyticsJson \<lparr>
                 an_total_users = length (users s),
                 an_total_posts = length (posts s),
                 an_total_comments = length (comments s),
                 an_users_per_day = group_count (map (date \<circ> u_created_at) (users s)),
                 an_posts_per_day = group_count (map (date \<circ> p_date_posted) (posts s)),
                 an_comments_per_day = group_count (map (date \<circ> c_date_posted) (comments s)),
                 an_user_activity = user_activity s \<rparr>, 200), s)))))"

subsection \<open>Accounts\<close>

definition get_all_users :: "nat \<Rightarrow> db \<Rightarrow> outcome" where
  "get_all_users ident s =
     on_query (is_admin s ident) s (\<lambda>flag.
       if py_not flag then (Inr forbidden, s)
       else
         handled (catch_all
           (on_query (query (users s)) s (\<lambda>rows.
              (Inr (UsersJson (map user_json rows), 200), s)))))"

text \<open>
  The JSON body of the account endpoints: each key is absent or holds a value of its
  column's type.
\<close>

record user_form =
  uf_email :: "string option"
  uf_password :: "string option"
  uf_username :: "string option"
  uf_is_admin :: "bool option"

text \<open>
  The names \<^verbatim>\<open>admins.py\<close> binds at module level: those of its import lines (lines 1 to
  6), then its own definitions. Using any other name that is no builtin raises
  \<^verbatim>\<open>NameError\<close>.
\<close>

definition admins_globals :: "string list" where
  "admins_globals =
     [''Blueprint'', ''jsonify'', ''request'',
      ''jwt_required'', ''get_jwt_identity'',
      ''User'', ''Post'', ''Comment'', ''Review'', ''db'',
      ''func'',
      ''Limiter'',
      ''get_remote_address'',
      ''admins_bp'', ''limiter'', ''is_admin'', ''admin_analytics'', ''get_all_users'',
      ''create_user'', ''update_user'', ''delete_user'', ''get_user'', ''get_user_activity'']"

definition resolve :: "string list \<Rightarrow> string \<Rightarrow> exn + unit" where
  "resolve globals n = (if n \<in> set globals then Inr () else Inl (NameError n))"

text \<open>
  \<^verbatim>\<open>create_user\<close> has no \<^verbatim>\<open>try\<close>. After the gate and the two checks of the body it calls
  \<^verbatim>\<open>generate_password_hash\<close>, a name the module has to resolve first. A user row cannot
  hold \<^verbatim>\<open>None\<close> as its name (\<^verbatim>\<open>nullable=False\<close>): the commit raises.
\<close>

definition create_user :: "env \<Rightarrow> nat \<Rightarrow> user_form option \<Rightarrow> db \<Rightarrow> outcome" where
  "create_user ev ident body s =
     on_query (is_admin s ident) s (\<lambda>flag.
       if py_not flag then (Inr forbidden, s)
       else
         (case body of
            None \<Rightarrow> (Inr (Message ''Email and password are required'', 400), s)
          | Some data \<Rightarrow>
              if missing (uf_email data) \<or> missing (uf_password data)
              then (Inr (Message ''Email and password are required'', 400), s)
              else
                on_query (user_by_email s (the (uf_email data))) s (\<lambda>found.
                  if found \<noteq> None
                  then (Inr (Message ''Email already registered'', 400), s)
                  else
                    on_query (resolve admins_globals ''generate_password_hash'') s (\<lambda>_.
                      case uf_username data of
                        None \<Rightarrow> (Inl (IntegrityError ''users.username''), s)
                      | Some name \<Rightarrow>
                          let new_user = \<lparr>
                                u_id = fresh_id (map u_id (users s)),
                                u_username = name,
                                u_email = the (uf_email data),
                                u_password_hash =
                                  e_generate_password_hash ev (the (uf_password data)),
                                u_is_admin =
                                  Some (case uf_is_admin data of None \<Rightarrow> False | Some b \<Rightarrow> b),
                                u_created_at = e_now ev \<rparr>
                          in (Inr (Message ''User created successfully'', 201),
                              s\<lparr>users := users s @ [new_user]\<rparr>)))))"

definition update_user :: "nat \<Rightarrow> nat \<Rightarrow> user_form option \<Rightarrow> db \<Rightarrow> outcome" where
  "update_user ident uid body s =
     on_query (is_admin s ident) s (\<lambda>flag.
       if py_not flag then (Inr forbidden, s)
       else
         on_query (user_get s uid) s (\<lambda>found.
           case found of
             None \<Rightarrow> (Inr (Message ''User not found'', 404), s)
           | Some usr \<Rightarrow>
               (case body of
                  None \<Rightarrow> (Inl (AttributeError ''get''), s)
                | Some data \<Rightarrow>
                    let usr' = usr\<lparr>
                          u_username :=
                            (case uf_username data of None \<Rightarrow> u_username usr | Some v \<Rightarrow> v),
                          u_email :=
                            (case uf_email data of None \<Rightarrow> u_email usr | Some v \<Rightarrow> v),
                          u_is_admin :=
                            (case uf_is_admin data of None \<Rightarrow> u_is_admin usr | Some b \<Rightarrow> Some b) \<rparr>
                    in (Inr (Message ''User updated successfully'', 200),
                        commit_loaded admins_module_db s (store_user usr' s)))))"

text \<open>
  Deleting a user sets the \<^verbatim>\<open>user_id\<close> of the user's posts and comments to NULL, which
  the columns do not allow (\<^verbatim>\<open>nullable=False\<close>): the commit raises when there are any.
\<close>

definition delete_user :: "nat \<Rightarrow> nat \<Rightarrow> db \<Rightarrow> outcome" where
  "delete_user ident uid s =
     on_query (is_admin s ident) s (\<lambda>flag.
       if py_not flag then (Inr forbidden, s)
       else
         on_query (user_get s uid) s (\<lambda>found.
           case found of
             None \<Rightarrow> (Inr (Message ''User not found'', 404), s)
           | Some usr \<Rightarrow>
               on_query (session_delete admins_module_db) s (\<lambda>_.
                 if list_ex (\<lambda>p. p_user_id p = u_id usr) (posts s)
                 then (Inl (IntegrityError ''posts.user_id''), s)
                 else if list_ex (\<lambda>c. c_user_id c = u_id usr) (comments s)
                 then (Inl (IntegrityError ''comments.user_id''), s)
                 else (Inr (Message ''User deleted successfully'', 200),
                       s\<lparr>users := filter (\<lambda>q. u_id q \<noteq> u_id usr) (users s)\<rparr>))))"

definition get_user :: "nat \<Rightarrow> nat \<Rightarrow> db \<Rightarrow> outcome" where
  "get_user ident uid s =
     on_query (is_admin s ident) s (\<lambda>flag.
       if py_not flag then (Inr forbidden, s)
       else
         on_query (user_get s uid) s (\<lambda>found.
           case found of
             None \<Rightarrow> (Inr (Message ''User not found'', 404), s)
           | Some usr \<Rightarrow> (Inr (UserJson (user_json usr), 200), s)))"

definition get_user_activity :: "nat \<Rightarrow> nat \<Rightarrow> db \<Rightarrow> outcome" where
  "get_user_activity ident uid s =
     on_query (is_admin s ident) s (\<lambda>flag.
       if py_not flag then (Inr forbidden, s)
       else
         on_query (user_get s uid) s (\<lambda>found.
           case found of
             None \<Rightarrow> (Inr (Message ''User not found'', 404), s)
           | Some usr \<Rightarrow>
               on_query (query (filter (\<lambda>p. p_user_id p = u_id usr) (posts s))) s (\<lambda>ps.
                 on_query (query (filter (\<lambda>c. c_user_id c = u_id usr) (comments s))) s (\<lambda>cs.
                   (Inr (Activity
                      (map (\<lambda>p. (p_id p, p_description p, p_date_posted p)) ps)
                      (map (\<lambda>c. (c_id c, c_content c, c_date_posted c)) cs), 200), s)))))"

section \<open>Example states\<close>

text \<open>
  A small database used to run the handlers: two users, of whom \<open>root\<close> is an
  administrator, and one lost post owned by \<open>alice\<close>. The mail server of \<open>env0\<close> takes
  every message.
\<close>

definition env0 :: env where
  "env0 = \<lparr> e_now = 1000, e_secret_key = ''secret'',
            e_secure_filename = (\<lambda>n. n),
            e_generate_password_hash = (\<lambda>pw. ''hash:'' @ pw),
            e_mail_send = (\<lambda>m. True) \<rparr>"

definition alice :: user where
  "alice = \<lparr> u_id = 1, u_username = ''alice'', u_email = ''alice@example.org'',
             u_password_hash = ''hash:a'', u_is_admin = Some False, u_created_at = 10 \<rparr>"

definition root :: user where
  "root = \<lparr> u_id = 2, u_username = ''root'', u_email = ''root@example.org'',
            u_password_hash = ''hash:r'', u_is_admin = Some True, u_created_at = 20 \<rparr>"

definition wallet :: post where
  "wallet = \<lparr> p_id = 1, p_description = ''Red wallet'', p_location = ''Main St'',
              p_contact_info = ''555-1234'', p_date_posted = 100, p_post_type = Lost,
              p_user_id = 1, p_image = None, p_vehicle_details = None \<rparr>"

text \<open>A post whose description ends in a capital E with acute accent.\<close>

definition cafe :: post where
  "cafe = \<lparr> p_id = 2, p_description = ''CAF'' @ [CHR 0xC9], p_location = ''Main St'',
            p_contact_info = ''555-9876'', p_date_posted = 200, p_post_type = Lost,
            p_user_id = 1, p_image = None, p_vehicle_details = None \<rparr>"

definition db0 :: db where
  "db0 = \<lparr> users = [alice, root], posts = [wallet], comments = [],
           uploads = [], outbox = [] \<rparr>"

text \<open>A form with a location only, and a form with all three required fields.\<close>

definition form_location :: "string \<rightharpoonup> string" where
  "form_location = [''location'' \<mapsto> ''Park'']"

definition form_full :: "string \<rightharpoonup> string" where
  "form_full = [''description'' \<mapsto> ''Blue Bike'', ''location'' \<mapsto> ''Park'',
                ''contact_info'' \<mapsto> ''555-0000'']"

text \<open>An account form with an address no user has.\<close>

definition form_new :: user_form where
  "form_new = \<lparr> uf_email = Some ''carol@example.org'', uf_password = Some ''pw'',
                uf_username = Some ''carol'', uf_is_admin = None \<rparr>"

text \<open>
  Three reset tokens for \<open>alice\<close> that do not verify at time 1000 under the key of
  \<open>env0\<close>: one that expired at 900, one signed with another key, one that is no token.
\<close>

definition tok_expired :: token where
  "tok_expired = Signed ''secret'' [(''reset_password'', 1), (''exp'', 900)]"

definition tok_tampered :: token where
  "tok_tampered = Signed ''guess'' [(''reset_password'', 1), (''exp'', 5000)]"

definition tok_garbage :: token where
  "tok_garbage = Malformed ''abc''"

definition body_email :: "string \<Rightarrow> (string \<rightharpoonup> string) option" where
  "body_email e = Some [''email'' \<mapsto> e]"

definition body_password :: "(string \<rightharpoonup> string) option" where
  "body_password = Some [''password'' \<mapsto> ''new'']"



definition args_plain :: "string \<rightharpoonup> string" where
  "args_plain = [''keyword'' \<mapsto> ''WALLET'', ''location'' \<mapsto> ''main'']"

section \<open>Notions used in the statements\<close>

text \<open>
  The exception the mapper configuration of \<^verbatim>\<open>models.py\<close> raises, and the answer a
  handler gives when it catches it.
\<close>

definition mapper_error :: exn where
  "mapper_error = ArgumentError ''reviewer'' ''User.written_reviews''"

definition server_error :: response where
  "server_error = (Message (''An error occurred: '' @ str_exn mapper_error), 500)"

text \<open>A search term is plain when it has neither of the two wildcards of \<^verbatim>\<open>LIKE\<close>.\<close>

definition plain :: "string \<Rightarrow> bool" where
  "plain k = (CHR ''%'' \<notin> set k \<and> CHR ''_'' \<notin> set k)"

section \<open>Every query raises\<close>

text \<open>
  The relationship \<^verbatim>\<open>User.written_reviews\<close> asks for the backref \<^verbatim>\<open>reviewer\<close> on \<^verbatim>\<open>Review\<close>,
  which declares a relationship of that name: the mappers cannot be configured, and
  every query of every handler raises.
\<close>

lemma configure_mappers_raises: "configure_mappers = Inl mapper_error"
  by (simp add: configure_mappers_def backref_clash_def declared_def
        models_relationships_def mapper_error_def)

lemma query_raises: "query rows = Inl mapper_error"
  by (simp add: query_def configure_mappers_raises)

lemma lookups_raise:
  "user_get s uid = Inl mapper_error"
  "post_get pt s pid = Inl mapper_error"
  "post_all pt s = Inl mapper_error"
  "user_by_email s e = Inl mapper_error"
  by (simp_all add: user_get_def post_get_def post_all_def user_by_email_def query_raises)

lemma is_admin_raises: "is_admin s uid = Inl mapper_error"
  by (simp add: is_admin_def lookups_raise)

text \<open>The post handlers past their validation, each inside its \<^verbatim>\<open>try\<close>, answer 500.\<close>

lemma read_handlers_fail:
  "get_all_posts pt s = (server_error, s)"
  "get_post pt pid s = (server_error, s)"
  "search_posts pt args s = (server_error, s)"
  "get_comments pt pid s = (server_error, s)"
  by (simp_all add: get_all_posts_def get_post_def search_posts_def get_comments_def
        on_query_def catch_all_def lookups_raise server_error_def Let_def)

lemma write_handlers_fail:
  "update_post pt ev ident pid data img s = (server_error, s)"
  "delete_post pt ident pid s = (server_error, s)"
  by (simp_all add: update_post_def delete_post_def on_query_def catch_all_def
        lookups_raise server_error_def)


text \<open>The handlers of \<^verbatim>\<open>admins.py\<close> and \<^verbatim>\<open>users.py\<close> let the exception out.\<close>

lemma admin_handlers_raise:
  "admin_analytics ident s = (Inl mapper_error, s)"
  "get_all_users ident s = (Inl mapper_error, s)"
  "create_user ev ident body s = (Inl mapper_error, s)"
  "update_user ident uid body s = (Inl mapper_error, s)"
  "delete_user ident uid s = (Inl mapper_error, s)"
  "get_user ident uid s = (Inl mapper_error, s)"
  "get_user_activity ident uid s = (Inl mapper_error, s)"
  by (simp_all add: admin_analytics_def get_all_users_def create_user_def update_user_def
        delete_user_def get_user_def get_user_activity_def on_query_def is_admin_raises)

lemma request_password_reset_raises:
  "request_password_reset ev body s = (Inl mapper_error, s)"
  by (simp add: request_password_reset_def on_query_def query_raises)

section \<open>Creating a post\<close>

text \<open>
  Claim C4. For each of the four post types, a create request in which any of
  description, location and contact_info is empty or absent is answered with status 400
  and an errors list; the list has the message of a field exactly when that field is
  missing, so every missing field is named and not only the first; the database, the
  upload folder and the outbox are left as they were, so no post is created.
\<close>

theorem create_lists_every_missing_field:
  assumes "missing (data ''description'') \<or> missing (data ''location'')
           \<or> missing (data ''contact_info'')"
  shows "create_post pt ev ident data img s = ((Errors (validate_post_data data), 400), s)
       \<and> (''Description is required.'' \<in> set (validate_post_data data)
            \<longleftrightarrow> missing (data ''description''))
       \<and> (''Location is required.'' \<in> set (validate_post_data data)
            \<longleftrightarrow> missing (data ''location''))
       \<and> (''Contact information is required.'' \<in> set (validate_post_data data)
            \<longleftrightarrow> missing (data ''contact_info''))"
proof -
  have ne: "validate_post_data data \<noteq> []"
    using assms by (auto simp: validate_post_data_def)
  have r: "create_post pt ev ident data img s = ((Errors (validate_post_data data), 400), s)"
    using ne by (simp add: create_post_def catch_all_def Let_def)
  show ?thesis using r by (simp add: validate_post_data_def)
qed

theorem create_lists_every_missing_field_witness:
  "(missing (form_location ''description'') \<or> missing (form_location ''location'')
    \<or> missing (form_location ''contact_info''))
   \<and> create_post Stolen env0 1 form_location None db0
       = ((Errors [''Description is required.'', ''Contact information is required.''], 400),
          db0)"
  using create_lists_every_missing_field [of form_location Stolen env0 1 None db0]
  by (simp add: validate_post_data_def missing_def form_location_def)

section \<open>Password reset\<close>

text \<open>The three ways in which decoding a token raises.\<close>

lemma jwt_decode_malformed:
  "jwt_decode (Malformed m) key now = Inl DecodeError"
  by (simp add: jwt_decode_def)

lemma jwt_decode_tampered:
  "k \<noteq> key \<Longrightarrow> jwt_decode (Signed k claims) key now = Inl InvalidSignatureError"
  by (simp add: jwt_decode_def)

lemma jwt_decode_expired:
  "map_of claims ''exp'' = Some e \<Longrightarrow> e \<le> now
   \<Longrightarrow> jwt_decode (Signed key claims) key now = Inl ExpiredSignatureError"
  by (simp add: jwt_decode_def)

text \<open>
  A token made by \<^verbatim>\<open>get_reset_token\<close> decodes for the next 600 seconds under the same
  key; the query for its user then raises, outside the \<^verbatim>\<open>try\<close>.
\<close>

lemma verify_fresh_token_raises:
  assumes "e_secret_key ev' = e_secret_key ev" and "e_now ev' < e_now ev + 600"
  shows "verify_reset_token ev' s (get_reset_token ev usr) = Inl mapper_error"
  using assms
  by (simp add: verify_reset_token_def get_reset_token_def jwt_encode_def jwt_decode_def
        lookups_raise)

text \<open>
  Claim C2. Whenever decoding a reset token raises (the token is expired, signed with
  another key, or no token at all), \<^verbatim>\<open>verify_reset_token\<close> returns no user and the reset
  endpoint answers 400 "Invalid or expired token" without touching the state. The
  answer is the same for any two tokens that fail, whatever the two failures and the
  two request bodies are.
\<close>

theorem reset_token_failures_uniform:
  assumes "jwt_decode t1 (e_secret_key ev) (e_now ev) = Inl err1"
      and "jwt_decode t2 (e_secret_key ev) (e_now ev) = Inl err2"
  shows "verify_reset_token ev s t1 = Inr None
       \<and> reset_password ev t1 body1 s = (Inr (Message ''Invalid or expired token'', 400), s)
       \<and> reset_password ev t1 body1 s = reset_password ev t2 body2 s"
  using assms by (simp add: verify_reset_token_def reset_password_def on_query_def)

theorem reset_token_failures_uniform_witness:
  "jwt_decode tok_expired (e_secret_key env0) (e_now env0) = Inl ExpiredSignatureError
   \<and> jwt_decode tok_tampered (e_secret_key env0) (e_now env0) = Inl InvalidSignatureError
   \<and> jwt_decode tok_garbage (e_secret_key env0) (e_now env0) = Inl DecodeError
   \<and> reset_password env0 tok_expired body_password db0
       = (Inr (Message ''Invalid or expired token'', 400), db0)
   \<and> reset_password env0 tok_expired body_password db0
       = reset_password env0 tok_tampered None db0
   \<and> reset_password env0 tok_garbage None db0
       = reset_password env0 tok_tampered None db0"
proof -
  have d: "jwt_decode tok_expired (e_secret_key env0) (e_now env0) = Inl ExpiredSignatureError"
          "jwt_decode tok_tampered (e_secret_key env0) (e_now env0) = Inl InvalidSignatureError"
          "jwt_decode tok_garbage (e_secret_key env0) (e_now env0) = Inl DecodeError"
    by (simp_all add: jwt_decode_def tok_expired_def tok_tampered_def tok_garbage_def env0_def)
  show ?thesis
    using reset_token_failures_uniform [OF d(1) d(2), of db0 body_password None]
          reset_token_failures_uniform [OF d(3) d(2), of db0 None None] d
    by blast
qed

text \<open>
  \<^verbatim>\<open>mail.send\<close> is not guarded: when the server does not take the message, sending
  raises.
\<close>

lemma send_reset_email_unavailable:
  assumes "\<And>m. \<not> e_mail_send ev m"
  shows "send_reset_email ev usr s = Inl SMTPException"
  using assms by (simp add: send_reset_email_def Let_def)

text \<open>
  Claim C10. The claim says that a reset request with an email address is answered 200
  with one fixed message whether or not the address is registered. Run on the address
  of \<open>alice\<close> and on an address nobody has, the handler raises the mapper error at
  \<^verbatim>\<open>User.query\<close> and nothing catches it: neither request is answered 200, and no mail
  is sent.
\<close>

theorem reset_request_raises:
  "user_by_email_row db0 ''alice@example.org'' = Some alice
   \<and> request_password_reset env0 (body_email ''alice@example.org'') db0
       = (Inl mapper_error, db0)
   \<and> user_by_email_row db0 ''nobody@example.org'' = None
   \<and> request_password_reset env0 (body_email ''nobody@example.org'') db0
       = (Inl mapper_error, db0)"
  by (simp add: request_password_reset_raises user_by_email_row_def db0_def alice_def
        root_def)

section \<open>The admin endpoints\<close>

text \<open>
  Claim C6. The claim says that a caller who is no administrator gets 403 from every
  admin endpoint. \<open>alice\<close> is no administrator and user 9 does not exist; for both, each
  of the seven handlers raises the mapper error in \<^verbatim>\<open>is_admin\<close>, before any \<^verbatim>\<open>try\<close>, so
  the request ends in 500 and not in 403. Nothing is written.
\<close>

theorem admin_gate_raises:
  "user_row db0 1 = Some alice \<and> u_is_admin alice = Some False \<and> user_row db0 9 = None
   \<and> admin_analytics 1 db0 = (Inl mapper_error, db0)
   \<and> get_all_users 1 db0 = (Inl mapper_error, db0)
   \<and> create_user env0 1 (Some form_new) db0 = (Inl mapper_error, db0)
   \<and> update_user 1 2 (Some form_new) db0 = (Inl mapper_error, db0)
   \<and> delete_user 1 2 db0 = (Inl mapper_error, db0)
   \<and> get_user 1 2 db0 = (Inl mapper_error, db0)
   \<and> get_user_activity 1 2 db0 = (Inl mapper_error, db0)
   \<and> admin_analytics 9 db0 = (Inl mapper_error, db0)"
  by (simp add: admin_handlers_raise user_row_def db0_def alice_def root_def)

text \<open>
  \<^verbatim>\<open>create_user\<close> never answers 201, and the name it needs for hashing is not bound in
  its module.
\<close>

lemma create_user_never_succeeds:
  "fst (create_user ev ident body s) \<noteq> Inr (Message ''User created successfully'', 201)"
  by (simp add: admin_handlers_raise)

lemma generate_password_hash_unbound:
  "resolve admins_globals ''generate_password_hash''
     = Inl (NameError ''generate_password_hash'')"
  by (simp add: resolve_def admins_globals_def)

text \<open>
  Claim C3. The claim says that an administrator who sends a well-formed request with
  a password and an address not yet registered gets a new account and a success
  answer. \<open>root\<close> is an administrator and no user has the address of \<open>form_new\<close>; the
  handler raises and writes nothing. The first raise is the mapper error in
  \<^verbatim>\<open>is_admin\<close>; past the checks of the handler stands the call of
  \<^verbatim>\<open>generate_password_hash\<close>, a name \<^verbatim>\<open>admins.py\<close> does not import.
\<close>

theorem create_user_name_error:
  "user_row db0 2 = Some root \<and> u_is_admin root = Some True
   \<and> user_by_email_row db0 ''carol@example.org'' = None
   \<and> create_user env0 2 (Some form_new) db0 = (Inl mapper_error, db0)
   \<and> resolve admins_globals ''generate_password_hash''
       = Inl (NameError ''generate_password_hash'')"
  by (simp add: admin_handlers_raise user_row_def user_by_email_row_def db0_def alice_def
        root_def resolve_def admins_globals_def)

section \<open>Updating and deleting a post\<close>

text \<open>
  Claim C5. The claim says that an update or delete request is answered 404 when the
  post does not exist and 403 when the requester is not its owner. \<open>root\<close> does not own
  the lost post 1, and there is no post 7; all four requests are answered 500, with
  the text of the mapper error: the lookup of the post raises before either check.
\<close>

theorem update_delete_server_error:
  "post_row Lost db0 1 = Some wallet \<and> p_user_id wallet \<noteq> 2
   \<and> update_post Lost env0 2 1 form_full None db0 = (server_error, db0)
   \<and> delete_post Lost 2 1 db0 = (server_error, db0)
   \<and> post_row Lost db0 7 = None
   \<and> update_post Lost env0 1 7 form_full None db0 = (server_error, db0)
   \<and> delete_post Lost 1 7 db0 = (server_error, db0)
   \<and> snd server_error = 500"
  by (simp add: write_handlers_fail post_row_def db0_def wallet_def server_error_def)

text \<open>
  Claim C1. The claim says that an update by the owner which supplies only some of the
  fields succeeds and keeps the others. \<open>alice\<close> owns the lost post 1. Her update with a
  location only, and her update with all three fields, are both answered 500 and
  change nothing. Behind the mapper error the handler validates the form as on
  creation, so the form with a location only has two errors.
\<close>

theorem update_by_owner_fails:
  "post_row Lost db0 1 = Some wallet \<and> p_user_id wallet = 1
   \<and> update_post Lost env0 1 1 form_location None db0 = (server_error, db0)
   \<and> update_post Lost env0 1 1 form_full None db0 = (server_error, db0)
   \<and> snd server_error = 500
   \<and> validate_post_data form_location
       = [''Description is required.'', ''Contact information is required.'']"
  by (simp add: write_handlers_fail post_row_def db0_def wallet_def server_error_def
        validate_post_data_def missing_def form_location_def)

section \<open>Commenting\<close>




section \<open>Posts of another type\<close>




section \<open>Search\<close>

lemma sql_lower_char_percent: "sql_lower_char c = CHR ''%'' \<longleftrightarrow> c = CHR ''%''"
  by (auto simp add: sql_lower_char_def ascii_upper_def ascii_lower_def split: if_splits)

lemma sql_lower_char_underscore: "sql_lower_char c = CHR ''_'' \<longleftrightarrow> c = CHR ''_''"
  by (auto simp add: sql_lower_char_def ascii_upper_def ascii_lower_def split: if_splits)

lemma py_lower_char_percent: "py_lower_char c = CHR ''%'' \<longleftrightarrow> c = CHR ''%''"
  by (auto simp add: py_lower_char_def ascii_upper_def ascii_lower_def latin1_upper_def
        latin1_lower_def split: if_splits)

lemma py_lower_char_underscore: "py_lower_char c = CHR ''_'' \<longleftrightarrow> c = CHR ''_''"
  by (auto simp add: py_lower_char_def ascii_upper_def ascii_lower_def latin1_upper_def
        latin1_lower_def split: if_splits)

text \<open>What Python has lowered, SQL's \<^verbatim>\<open>lower\<close> leaves alone.\<close>

lemma sql_lower_char_py_lower_char: "sql_lower_char (py_lower_char c) = py_lower_char c"
  by (simp add: py_lower_char_def sql_lower_char_def ascii_upper_def ascii_lower_def
        latin1_upper_def latin1_lower_def)

lemma sql_lower_py_lower: "sql_lower (py_lower k) = py_lower k"
  by (simp add: sql_lower_def py_lower_def sql_lower_char_py_lower_char)

lemma sql_lower_append: "sql_lower (a @ b) = sql_lower a @ sql_lower b"
  by (simp add: sql_lower_def)

lemma plain_py_lower: "plain (py_lower k) = plain k"
proof -
  have p: "CHR ''%'' \<in> py_lower_char ` A \<longleftrightarrow> CHR ''%'' \<in> A" for A
  proof
    assume "CHR ''%'' \<in> py_lower_char ` A"
    then obtain x where x: "x \<in> A" "py_lower_char x = CHR ''%''" by force
    then show "CHR ''%'' \<in> A" by (simp add: py_lower_char_percent)
  next
    assume "CHR ''%'' \<in> A"
    moreover have "py_lower_char CHR ''%'' = CHR ''%''" by (simp add: py_lower_char_percent)
    ultimately show "CHR ''%'' \<in> py_lower_char ` A" by force
  qed
  have u: "CHR ''_'' \<in> py_lower_char ` A \<longleftrightarrow> CHR ''_'' \<in> A" for A
  proof
    assume "CHR ''_'' \<in> py_lower_char ` A"
    then obtain x where x: "x \<in> A" "py_lower_char x = CHR ''_''" by force
    then show "CHR ''_'' \<in> A" by (simp add: py_lower_char_underscore)
  next
    assume "CHR ''_'' \<in> A"
    moreover have "py_lower_char CHR ''_'' = CHR ''_''" by (simp add: py_lower_char_underscore)
    ultimately show "CHR ''_'' \<in> py_lower_char ` A" by force
  qed
  show ?thesis by (simp add: plain_def py_lower_def p u)
qed

text \<open>A pattern that starts with \<^verbatim>\<open>%\<close> may skip any prefix of the text.\<close>

lemma like_percent:
  "like (CHR ''%'' # ps) s \<longleftrightarrow> (\<exists>us vs. s = us @ vs \<and> like ps vs)"
proof (induction s)
  case Nil
  show ?case by simp
next
  case (Cons c cs)
  have "(\<exists>us vs. c # cs = us @ vs \<and> like ps vs)
        \<longleftrightarrow> like ps (c # cs) \<or> (\<exists>us vs. cs = us @ vs \<and> like ps vs)"
    by (auto simp: Cons_eq_append_conv)
  with Cons show ?case by simp
qed

text \<open>A plain pattern prefix matches itself and nothing else.\<close>

lemma like_plain:
  "plain k \<Longrightarrow> like (k @ ps) s \<longleftrightarrow> (\<exists>t. s = k @ t \<and> like ps t)"
proof (induction k arbitrary: s)
  case Nil
  show ?case by simp
next
  case (Cons a k)
  then have a: "a \<noteq> CHR ''%''" "a \<noteq> CHR ''_''" and k: "plain k"
    by (auto simp: plain_def)
  show ?case
  proof (cases s)
    case Nil
    with a show ?thesis by simp
  next
    case (Cons c cs)
    with a Cons.IH [OF k] show ?thesis by auto
  qed
qed

lemma like_contains:
  assumes "plain k"
  shows "like (''%'' @ k @ ''%'') s \<longleftrightarrow> sublist k s"
proof -
  have all: "like ''%'' t" for t
    by (simp add: like_percent)
  have "like (''%'' @ k @ ''%'') s \<longleftrightarrow> (\<exists>us vs. s = us @ vs \<and> like (k @ ''%'') vs)"
    using like_percent [of "k @ ''%''" s] by simp
  also have "\<dots> \<longleftrightarrow> (\<exists>us t. s = us @ k @ t)"
    using like_plain [OF assms, of "''%''"] all by auto
  finally show ?thesis by (simp add: sublist_def)
qed

text \<open>
  For a plain term the filter of the search selects the rows whose column, lowered
  the way SQL does it, contains the term as Python lowered it.
\<close>

lemma ilike_contains:
  assumes "plain k"
  shows "ilike column (''%'' @ py_lower k @ ''%'') \<longleftrightarrow> sublist (py_lower k) (sql_lower column)"
proof -
  have w: "sql_lower ''%'' = ''%''"
    by (simp add: sql_lower_def sql_lower_char_def ascii_upper_def ascii_lower_def)
  have "sql_lower (''%'' @ py_lower k @ ''%'') = ''%'' @ py_lower k @ ''%''"
    by (simp only: sql_lower_append sql_lower_py_lower w)
  then show ?thesis
    using like_contains [of "py_lower k" "sql_lower column"] assms
    by (simp add: ilike_def plain_py_lower)
qed

lemma search_rows_plain:
  assumes "plain k" and "plain l"
  shows "search_rows (py_lower k) (py_lower l) rows
           = filter (\<lambda>p. sublist (py_lower k) (sql_lower (p_description p))
                        \<and> sublist (py_lower l) (sql_lower (p_location p))) rows"
proof -
  have k: "ilike c (CHR ''%'' # py_lower k @ ''%'') \<longleftrightarrow> sublist (py_lower k) (sql_lower c)"
    for c using ilike_contains [OF assms(1), of c] by simp
  have l: "ilike c (CHR ''%'' # py_lower l @ ''%'') \<longleftrightarrow> sublist (py_lower l) (sql_lower c)"
    for c using ilike_contains [OF assms(2), of c] by simp
  have e: "py_lower x = [] \<longleftrightarrow> x = []" for x by (simp add: py_lower_def)
  have n: "py_lower [] = []" by (simp add: py_lower_def)
  show ?thesis
    by (simp add: search_rows_def Let_def k l e n)
qed

text \<open>
  Claim C8. The claim says that a search returns exactly the posts whose description
  contains the keyword, and whose location contains the location filter, as
  case-insensitive substrings. The search for \<^verbatim>\<open>WALLET\<close> in \<^verbatim>\<open>main\<close> should return the lost
  post "Red wallet" of "Main St"; it is answered 500, since the query raises the
  mapper error. Behind that, the filter the handler builds is not the substring test
  of the claim: the keyword \<^verbatim>\<open>W_LLET\<close> is no substring of "Red wallet" in any case, yet
  the filter selects that post, the underscore reaching \<^verbatim>\<open>LIKE\<close> as a wildcard; and the
  keyword of the one letter E with acute accent is contained in the description of
  \<open>cafe\<close> up to case, yet the filter rejects the post, SQL lowering only A to Z.
\<close>

theorem search_fails:
  "post_rows Lost db0 = [wallet]
   \<and> sublist (py_lower ''WALLET'') (py_lower (p_description wallet))
   \<and> sublist (py_lower ''main'') (py_lower (p_location wallet))
   \<and> search_posts Lost args_plain db0 = (server_error, db0)
   \<and> snd server_error = 500
   \<and> search_rows (py_lower ''W_LLET'') [] [wallet] = [wallet]
   \<and> \<not> sublist (py_lower ''W_LLET'') (py_lower (p_description wallet))
   \<and> search_rows (py_lower [CHR 0xC9]) [] [cafe] = []
   \<and> sublist (py_lower [CHR 0xC9]) (py_lower (p_description cafe))"
  by (simp add: read_handlers_fail server_error_def post_rows_def db0_def wallet_def cafe_def
        search_rows_def ilike_def sql_lower_def sql_lower_char_def py_lower_def
        py_lower_char_def ascii_upper_def ascii_lower_def latin1_upper_def latin1_lower_def
        sublist_code(3))


end
